theory Spec2Isabelle
  imports Complex_Main "HOL-Library.Multiset"
begin

section \<open>Python values\<close>

text \<open>
  Numbers are modelled as real numbers (counts as natural numbers), strings as
  \<open>string\<close>. A character of a string that the program receives stands for one
  code point below 256, so \<open>length\<close> is Python's \<open>len\<close> on such strings; text
  with code points beyond that range is outside the model. The dictionaries the stages exchange are modelled as records whose
  fields are the keys the two front ends read; a key that the code reads with
  \<open>.get\<close> is an \<open>option\<close> field, \<open>None\<close> standing for the missing key.
  An exception is a value of type \<open>exn\<close>; \<open>exn_str\<close> is Python's \<open>str(e)\<close>.
\<close>

datatype exn =
    KeyError string
  | ValueError string
  | AttributeError string
  | StageFailure string

definition apostrophe :: char where
  "apostrophe = CHR 0x27"

definition nl :: string where
  "nl = [CHR 0x0A]"

fun exn_str :: "exn \<Rightarrow> string" where
  "exn_str (KeyError k) = apostrophe # k @ [apostrophe]"
| "exn_str (ValueError m) = m"
| "exn_str (AttributeError m) = m"
| "exn_str (StageFailure m) = m"

text \<open>
  The pictographs that start the user messages of \<^verbatim>\<open>app.py\<close> lie beyond
  that range. Each is a named constant, spelled by its UTF-8 bytes; the program
  never takes the length of a message, and no property below depends on it.
\<close>

definition cross_mark :: string where
  "cross_mark = [CHR 0xE2, CHR 0x9D, CHR 0x8C]"

definition warning_sign :: string where
  "warning_sign = [CHR 0xE2, CHR 0x9A, CHR 0xA0, CHR 0xEF, CHR 0xB8, CHR 0x8F]"

definition check_mark :: string where
  "check_mark = [CHR 0xE2, CHR 0x9C, CHR 0x85]"

definition bullet :: string where
  "bullet = [CHR 0xE2, CHR 0x80, CHR 0xA2]"

text \<open>
  \<open>str.lower()\<close>, character by character: the letters \<open>A\<close> to \<open>Z\<close> and the
  upper-case letters of the range \<open>0xC0\<close> to \<open>0xDE\<close> (the multiplication sign
  \<open>0xD7\<close> is not a letter) move to their lower-case forms, every other
  character is kept.
\<close>

definition upper_letters :: string where
  "upper_letters = ''ABCDEFGHIJKLMNOPQRSTUVWXYZ'' @ [
      CHR 0xC0, CHR 0xC1, CHR 0xC2, CHR 0xC3, CHR 0xC4, CHR 0xC5, CHR 0xC6, CHR 0xC7,
      CHR 0xC8, CHR 0xC9, CHR 0xCA, CHR 0xCB, CHR 0xCC, CHR 0xCD, CHR 0xCE, CHR 0xCF,
      CHR 0xD0, CHR 0xD1, CHR 0xD2, CHR 0xD3, CHR 0xD4, CHR 0xD5, CHR 0xD6, CHR 0xD8,
      CHR 0xD9, CHR 0xDA, CHR 0xDB, CHR 0xDC, CHR 0xDD, CHR 0xDE]"

definition lower_letters :: string where
  "lower_letters = ''abcdefghijklmnopqrstuvwxyz'' @ [
      CHR 0xE0, CHR 0xE1, CHR 0xE2, CHR 0xE3, CHR 0xE4, CHR 0xE5, CHR 0xE6, CHR 0xE7,
      CHR 0xE8, CHR 0xE9, CHR 0xEA, CHR 0xEB, CHR 0xEC, CHR 0xED, CHR 0xEE, CHR 0xEF,
      CHR 0xF0, CHR 0xF1, CHR 0xF2, CHR 0xF3, CHR 0xF4, CHR 0xF5, CHR 0xF6, CHR 0xF8,
      CHR 0xF9, CHR 0xFA, CHR 0xFB, CHR 0xFC, CHR 0xFD, CHR 0xFE]"

definition lower_char :: "char \<Rightarrow> char" where
  "lower_char c =
     (case map_of (zip upper_letters lower_letters) c of
        None \<Rightarrow> c
      | Some d \<Rightarrow> d)"

definition str_lower :: "string \<Rightarrow> string" where
  "str_lower s = map lower_char s"

text \<open>
  \<open>str.strip()\<close>: the characters for which \<open>str.isspace\<close> holds are removed
  from both ends.
\<close>

definition is_space :: "char \<Rightarrow> bool" where
  "is_space c =
     (c \<in> set [CHR 0x09, CHR 0x0A, CHR 0x0B, CHR 0x0C, CHR 0x0D, CHR 0x1C, CHR 0x1D,
                CHR 0x1E, CHR 0x1F, CHR 0x20, CHR 0x85, CHR 0xA0])"

definition str_strip :: "string \<Rightarrow> string" where
  "str_strip s = rev (dropWhile is_space (rev (dropWhile is_space s)))"

text \<open>\<open>sep.join(xs)\<close>.\<close>

fun join :: "string \<Rightarrow> string list \<Rightarrow> string" where
  "join sep [] = []"
| "join sep [x] = x"
| "join sep (x # y # ys) = x @ sep @ join sep (y # ys)"

text \<open>\<open>repr\<close> of a list of plain strings, as an f-string prints it.\<close>

definition list_repr :: "string list \<Rightarrow> string" where
  "list_repr xs =
     ''['' @ join '', '' (map (\<lambda>x. apostrophe # x @ [apostrophe]) xs) @ '']''"

text \<open>\<open>needle in haystack\<close> on strings.\<close>

fun starts_with :: "string \<Rightarrow> string \<Rightarrow> bool" where
  "starts_with [] hay = True"
| "starts_with (n # ns) [] = False"
| "starts_with (n # ns) (h # hs) = (n = h \<and> starts_with ns hs)"

fun contains :: "string \<Rightarrow> string \<Rightarrow> bool" where
  "contains needle [] = starts_with needle []"
| "contains needle (h # hs) = (starts_with needle (h # hs) \<or> contains needle hs)"

text \<open>
  \<open>round(x, 1)\<close>: the nearest multiple of one tenth, a tie going to the even
  multiple.
\<close>

definition round1 :: "real \<Rightarrow> real" where
  "round1 x =
     (let y = x * 10; f = \<lfloor>y\<rfloor>; d = y - of_int f
      in (if d < 1 / 2 then of_int f
          else if d > 1 / 2 then of_int (f + 1)
          else if even f then of_int f
          else of_int (f + 1)) / 10)"

section \<open>Score normalization\<close>

text \<open>
  Both front ends define a local helper \<open>normalize_score\<close> inside their
  \<open>analyze_resume\<close> function.

  \<^verbatim>\<open>api.py, lines 142-147\<close>: \<open>if score > 100: return min(100, score / 100)\<close>,
  \<open>elif score <= 1: return score * 100\<close>, and after the conditional
  \<open>return min(100, score)\<close>.
\<close>

definition normalize_score_api :: "real \<Rightarrow> real" where
  "normalize_score_api score =
     (if score > 100 then min 100 (score / 100)
      else if score \<le> 1 then score * 100
      else min 100 score)"

text \<open>
  \<^verbatim>\<open>app.py, lines 716-726\<close>: the same three cases written as
  \<open>if / elif / else\<close>, each with its own \<open>return\<close>.
\<close>

fun normalize_score_app :: "real \<Rightarrow> real" where
  "normalize_score_app score =
     (if score > 100 then
        min 100 (score / 100)
      else (if score \<le> 1 then
        score * 100
      else
        min 100 score))"

section \<open>Data exchanged by the stages\<close>

record claim =
  claim_id :: "string option"
  claim_text :: "string option"
  category :: "string option"
  verifiability_level :: "string option"
  quantifiable_metrics :: "string list option"
  links_artifacts :: "string list option"

record validation =
  val_claim_id :: "string option"
  verification_status :: "string option"
  evidence_present :: "string option"
  final_evidence_score :: "real option"

text \<open>The empty dictionary \<open>{}\<close> used as the default of a failed lookup.\<close>

definition empty_validation :: validation where
  "empty_validation =
     \<lparr>val_claim_id = None, verification_status = None,
      evidence_present = None, final_evidence_score = None\<rparr>"

record red_flag =
  rf_category :: "string option"
  severity :: "string option"
  description :: "string option"
  interview_probe :: "string option"

record metrics =
  specificity_score :: real
  claims_with_metrics :: nat
  claims_with_artifacts :: nat
  buzzword_density :: real
  cross_referenced_skills :: nat
  total_skills :: nat

text \<open>
  \<open>sections\<close> is a dictionary from section name to text; its keys are read in
  insertion order, so it is an association list.
\<close>

record parsed_cv =
  raw_text :: "string option"
  sections :: "(string \<times> string) list option"

text \<open>Results of \<open>extract_claims\<close>, \<open>validate_evidence\<close> and \<open>detect_red_flags\<close>.\<close>

record claims_result =
  cr_claims :: "claim list"
  cr_metrics :: metrics

record validation_result =
  vr_validations :: "validation list"
  vr_consistency_score :: real

record red_flag_result =
  rr_red_flags :: "red_flag list"
  rr_credibility_score :: real
  rr_final_score :: real
  rr_risk_assessment :: string
  rr_recommendation :: string

text \<open>The dictionary handed to \<open>detect_red_flags\<close>.\<close>

record detector_bundle =
  b_claims :: "claim list"
  b_validations :: "validation list"
  b_consistency_score :: real

text \<open>
  The modules \<open>cv_parser\<close>, \<open>claim_extractor\<close>, \<open>evidence_validator\<close> and
  \<open>red_flag_detector\<close> are imported by both front ends and are not part of the
  sources; they are parameters of the model. Each may raise. \<open>now\<close> is the clock
  reading used for the time stamp. The first argument of \<open>detect_red_flags\<close> is
  the strictness level given to the detector's constructor.
\<close>

record stages =
  parse :: "string \<Rightarrow> exn + parsed_cv"
  extract_claims :: "parsed_cv \<Rightarrow> string \<Rightarrow> exn + claims_result"
  validate_evidence :: "claim list \<Rightarrow> string \<Rightarrow> bool \<Rightarrow> bool \<Rightarrow> exn + validation_result"
  detect_red_flags :: "string \<Rightarrow> detector_bundle \<Rightarrow> string \<Rightarrow> exn + red_flag_result"
  now :: string

text \<open>One event per call of a stage, with the arguments of the call.\<close>

datatype event =
    Parse string
  | ExtractClaims parsed_cv string
  | ValidateEvidence "claim list" string bool bool
  | DetectRedFlags string detector_bundle string

text \<open>The consistency scores that the detector has been called with.\<close>

fun detector_scores :: "event list \<Rightarrow> real list" where
  "detector_scores [] = []"
| "detector_scores (DetectRedFlags strictness b seniority # es) =
     b_consistency_score b # detector_scores es"
| "detector_scores (e # es) = detector_scores es"

section \<open>The analysis result\<close>

text \<open>
  The keys that the result dictionaries of both front ends share, then the
  keys that only \<^verbatim>\<open>app.py\<close> and only \<^verbatim>\<open>api.py\<close> store.
\<close>

record score_results =
  total_claims :: nat
  verified_claims :: nat
  unverified_claims :: nat
  claim_metrics :: metrics
  consistency_score :: real
  red_flags :: "red_flag list"
  total_red_flags :: nat
  credibility_score :: real
  final_score :: real
  risk_assessment :: string
  recommendation :: string
  seniority_level :: string

record analysis_results = score_results +
  parsed_cv :: parsed_cv
  claims :: "claim list"
  validations :: "validation list"
  links_checked :: nat
  structure_quality :: string
  analysis_timestamp :: string

record api_results = score_results +
  success :: bool
  filename :: string
  analysis_date :: string
  strictness_level :: string
  included_claims :: "claim list option"
  included_validations :: "validation list option"

text \<open>
  \<open>sum(1 for v in validations if v.get('verification_status') == 'verified')\<close>
  and its companion for \<open>['unverified', 'red_flag']\<close>.
\<close>

definition count_verified :: "validation list \<Rightarrow> nat" where
  "count_verified vs =
     sum_list (map (\<lambda>v. 1) (filter (\<lambda>v. verification_status v = Some ''verified'') vs))"

definition count_unverified :: "validation list \<Rightarrow> nat" where
  "count_unverified vs =
     sum_list (map (\<lambda>v. 1)
       (filter (\<lambda>v. case verification_status v of
                        None \<Rightarrow> False
                      | Some s \<Rightarrow> s \<in> set [''unverified'', ''red_flag'']) vs))"

text \<open>\<open>sum(1 for c in claims if c.get('links_artifacts'))\<close>: a non-empty list is true.\<close>

definition count_links :: "claim list \<Rightarrow> nat" where
  "count_links cs =
     sum_list (map (\<lambda>c. 1)
       (filter (\<lambda>c. case links_artifacts c of None \<Rightarrow> False | Some l \<Rightarrow> l \<noteq> []) cs))"

section \<open>The Gradio front end (\<^verbatim>\<open>app.py\<close>)\<close>

text \<open>
  The text that the display functions build from their arguments (HTML
  templates, number formatting) and the writing of report files are parameters:
  \<open>display_text\<close> is the template of \<open>generate_comprehensive_analysis_display\<close>,
  \<open>interview_guide_text\<close> the one of \<open>generate_interview_guide_with_context\<close>,
  \<open>claims_header\<close> and \<open>category_header\<close> the two headers of
  \<open>generate_enhanced_claim_analysis\<close>, and \<open>write_report\<close> renders and writes
  the report of the given format and returns the file name.
\<close>

record renderer =
  display_text :: "analysis_results \<Rightarrow> string"
  interview_guide_text :: "analysis_results \<Rightarrow> string"
  claims_header :: "nat \<Rightarrow> string"
  category_header :: "string \<Rightarrow> nat \<Rightarrow> string"
  generate_single_claim_analysis :: "claim \<Rightarrow> validation \<Rightarrow> string"
  write_report :: "string \<Rightarrow> analysis_results \<Rightarrow> exn + string"

text \<open>
  The global \<open>current_session\<close>. The client object and the key are opaque and
  left out; \<open>last_analysis\<close> is the single slot that holds the latest result.
\<close>

record session =
  initialized :: bool
  last_analysis :: "analysis_results option"

definition initial_session :: session where
  "initial_session = \<lparr>initialized = False, last_analysis = None\<rparr>"

text \<open>
  \<open>initialize_session\<close>, lines 41-81. \<open>connect\<close> creates the client from the
  stripped key (line 60) and sends the test prompt; it returns whether the
  answer has text, or raises.
\<close>

definition initialize_session ::
  "(string \<Rightarrow> exn + bool) \<Rightarrow> session \<Rightarrow> string \<Rightarrow> (bool \<times> string) \<times> session" where
  "initialize_session connect sess api_key =
     (if api_key = [] \<or> str_strip api_key = [] then
        ((False, cross_mark @ '' Please enter a valid API key''), sess)
      else
        (case connect (str_strip api_key) of
           Inl e \<Rightarrow>
             ((False, cross_mark @ '' Initialization failed: '' @ exn_str e @ nl @ nl @
                ''Please check your API key at https://makersuite.google.com/app/apikey''), sess)
         | Inr answered \<Rightarrow>
             if \<not> answered then
               ((False, cross_mark @ '' Failed to connect to Gemini API''), sess)
             else
               ((True, check_mark @
                  '' Session initialized successfully! You can now upload and analyze resumes.''),
                sess\<lparr>initialized := True\<rparr>)))"

text \<open>
  \<open>generate_comprehensive_analysis_display\<close>, lines 83-166. The dictionary it
  is given is assigned to (line 88), so the updated dictionary is returned with
  the text.
\<close>

definition generate_comprehensive_analysis_display ::
  "renderer \<Rightarrow> analysis_results \<Rightarrow> string \<times> analysis_results" where
  "generate_comprehensive_analysis_display r analysis_results =
     (let consistency_score' = min 100 (consistency_score analysis_results);
          analysis_results' = analysis_results\<lparr>consistency_score := consistency_score'\<rparr>
      in (display_text r analysis_results', analysis_results'))"

text \<open>
  \<open>generate_enhanced_claim_analysis\<close>, lines 452-507. First the dictionary
  \<open>validation_map\<close> (lines 469-474): a later record with the same identifier
  replaces an earlier one, and a record with no or an empty identifier is
  skipped.
\<close>

definition val_id :: "validation \<Rightarrow> string" where
  "val_id val = (case val_claim_id val of None \<Rightarrow> [] | Some k \<Rightarrow> k)"

text \<open>The body of the loop of lines 471-474, for one record \<open>val\<close>.\<close>

definition put_validation ::
  "validation \<Rightarrow> (string \<rightharpoonup> validation) \<Rightarrow> (string \<rightharpoonup> validation)" where
  "put_validation val validation_map =
     (let cid = val_id val
      in if cid \<noteq> [] then validation_map(cid \<mapsto> val) else validation_map)"

definition build_validation_map :: "validation list \<Rightarrow> (string \<rightharpoonup> validation)" where
  "build_validation_map validation_list = fold put_validation validation_list Map.empty"

text \<open>
  The dictionary \<open>categories\<close> keeps its keys in insertion order: a new
  category is added at the end, an item of a known category is appended to
  that category's list.
\<close>

fun add_to_category ::
  "string \<Rightarrow> 'a \<Rightarrow> (string \<times> 'a list) list \<Rightarrow> (string \<times> 'a list) list" where
  "add_to_category cat item [] = [(cat, [item])]"
| "add_to_category cat item ((k, items) # rest) =
     (if k = cat then (k, items @ [item]) # rest
      else (k, items) # add_to_category cat item rest)"

text \<open>
  Lines 484-485: \<open>validation_map.get(claim.get('claim_id', ''), {})\<close>.
\<close>

definition lookup_validation :: "(string \<rightharpoonup> validation) \<Rightarrow> claim \<Rightarrow> validation" where
  "lookup_validation validation_map c =
     (let cid = (case claim_id c of None \<Rightarrow> [] | Some k \<Rightarrow> k)
      in case validation_map cid of None \<Rightarrow> empty_validation | Some v \<Rightarrow> v)"

text \<open>Lines 476-486: the first twenty claims, each with the record looked up by identifier.\<close>

definition group_claims ::
  "claim list \<Rightarrow> validation list \<Rightarrow> (string \<times> (claim \<times> validation) list) list" where
  "group_claims claim_list validation_list =
     (let validation_map = build_validation_map validation_list
      in fold (\<lambda>c categories.
                 let cat = (case category c of None \<Rightarrow> ''other'' | Some k \<Rightarrow> k);
                     validation = lookup_validation validation_map c
                 in add_to_category cat (c, validation) categories)
              (take 20 claim_list) [])"

definition generate_enhanced_claim_analysis ::
  "renderer \<Rightarrow> claim list \<Rightarrow> validation list \<Rightarrow> string" where
  "generate_enhanced_claim_analysis r claim_list validation_list =
     (if claim_list = [] then ''<p>No claims found to analyze.</p>''
      else
        claims_header r (length claim_list) @
        concat (map (\<lambda>(cat, items).
                       category_header r cat (length items) @
                       concat (map (\<lambda>(claim, validation).
                                      generate_single_claim_analysis r claim validation)
                                   (take 5 items)))
                    (group_claims claim_list validation_list)) @
        ''</div>'')"

text \<open>\<open>generate_interview_guide_with_context\<close>, lines 558-641.\<close>

definition generate_interview_guide_with_context ::
  "renderer \<Rightarrow> analysis_results option \<Rightarrow> string" where
  "generate_interview_guide_with_context r results =
     (case results of
        None \<Rightarrow> ''<p>No analysis results available yet. Please run an analysis first.</p>''
      | Some res \<Rightarrow> interview_guide_text r res)"

text \<open>
  The diagnosis of an empty claim list, lines 680-691 of \<open>analyze_resume\<close>.
  \<open>sections_found[0]\<close> is read only where the list has one element.
\<close>

definition diagnose_no_claims :: "parsed_cv \<Rightarrow> string" where
  "diagnose_no_claims cv =
     (let resume_length = length (case raw_text cv of None \<Rightarrow> [] | Some t \<Rightarrow> t);
          sections_found = map fst (case sections cv of None \<Rightarrow> [] | Some s \<Rightarrow> s)
      in if resume_length < 100 then
           warning_sign @ '' Resume too short (< 100 words). Please upload a complete resume with work experience, projects, or skills.''
         else if length sections_found = 0 then
           warning_sign @ '' Could not parse resume structure. Please ensure the file is a valid PDF, DOCX, or TXT with clear sections.''
         else if sections_found = [''education''] \<or> length sections_found = 1 then
           warning_sign @ '' Only found '' @ sections_found ! 0 @ '' section. Please add:'' @ nl @
           bullet @ '' Work experience'' @ nl @ bullet @ '' Projects'' @ nl @
           bullet @ '' Skills'' @ nl @ bullet @ '' Achievements''
         else
           warning_sign @ '' No analyzable claims found. Sections detected: '' @
           join '', '' sections_found @ ''.'' @ nl @ nl @
           ''Ensure resume includes specific achievements, not just responsibilities.'')"

text \<open>
  Lines 728-755 of \<open>analyze_resume\<close>: the helper is applied to the validator's
  score, the three scores are rounded, and the result dictionary is built.
\<close>

definition compile_results_app ::
  "string \<Rightarrow> string \<Rightarrow> parsed_cv \<Rightarrow> claims_result \<Rightarrow> validation_result \<Rightarrow> red_flag_result
     \<Rightarrow> analysis_results" where
  "compile_results_app timestamp seniority cv claims_res validation_res red_flag_res =
     (let claims0 = cr_claims claims_res;
          consistency0 = normalize_score_app (vr_consistency_score validation_res);
          final_score0 = round1 (rr_final_score red_flag_res);
          credibility0 = round1 (rr_credibility_score red_flag_res);
          consistency1 = round1 consistency0
      in \<lparr>total_claims = length claims0,
          verified_claims = count_verified (vr_validations validation_res),
          unverified_claims = count_unverified (vr_validations validation_res),
          claim_metrics = cr_metrics claims_res,
          consistency_score = consistency1,
          red_flags = rr_red_flags red_flag_res,
          total_red_flags = length (rr_red_flags red_flag_res),
          credibility_score = credibility0,
          final_score = final_score0,
          risk_assessment = rr_risk_assessment red_flag_res,
          recommendation = rr_recommendation red_flag_res,
          seniority_level = seniority,
          parsed_cv = cv,
          claims = claims0,
          validations = vr_validations validation_res,
          links_checked = count_links claims0,
          structure_quality = ''Well-organized'',
          analysis_timestamp = timestamp\<rparr>)"

text \<open>
  What \<open>analyze_resume\<close> returns: a message with empty outputs, or the three
  texts of a finished analysis (the figures are presentation and left out).
\<close>

datatype app_response =
    Message string
  | Analysis string string string

definition analysis_failed :: "exn \<Rightarrow> app_response" where
  "analysis_failed e = Message (cross_mark @ '' Analysis failed: '' @ exn_str e)"

text \<open>
  \<open>analyze_resume\<close>, lines 643-801. The result is the list of stage calls, the
  response and the session afterwards. The dictionary stored in the session at
  line 758 is the object that line 781 hands to the display function, so the
  assignment made there is an assignment to the stored result.
\<close>

definition analyze_resume_app ::
  "stages \<Rightarrow> renderer \<Rightarrow> session \<Rightarrow> string option \<Rightarrow> string \<Rightarrow> string \<Rightarrow> bool
     \<Rightarrow> event list \<times> app_response \<times> session" where
  "analyze_resume_app st r sess file seniority_lvl strictness_lvl deep_analysis =
     (if \<not> initialized sess then
        ([], Message (cross_mark @ '' Please initialize session with API key first''), sess)
      else case file of
        None \<Rightarrow> ([], Message (cross_mark @ '' Please upload a resume file''), sess)
      | Some file_path \<Rightarrow>
        (let strictness = str_lower strictness_lvl;
             seniority = str_lower seniority_lvl;
             t1 = [Parse file_path]
         in case parse st file_path of
           Inl e \<Rightarrow> (t1, analysis_failed e, sess)
         | Inr cv \<Rightarrow>
           (let t2 = t1 @ [ExtractClaims cv seniority]
            in case extract_claims st cv seniority of
              Inl e \<Rightarrow> (t2, analysis_failed e, sess)
            | Inr claims_res \<Rightarrow>
              (let claims0 = cr_claims claims_res
               in if claims0 = [] then (t2, Message (diagnose_no_claims cv), sess)
                  else case raw_text cv of
                    None \<Rightarrow> (t2, analysis_failed (KeyError ''raw_text''), sess)
                  | Some resume_text \<Rightarrow>
                    (let t3 = t2 @ [ValidateEvidence claims0 resume_text deep_analysis deep_analysis]
                     in case validate_evidence st claims0 resume_text deep_analysis deep_analysis of
                       Inl e \<Rightarrow> (t3, analysis_failed e, sess)
                     | Inr validation_res \<Rightarrow>
                       (let b = \<lparr>b_claims = claims0,
                                 b_validations = vr_validations validation_res,
                                 b_consistency_score = vr_consistency_score validation_res\<rparr>;
                            t4 = t3 @ [DetectRedFlags strictness b seniority]
                        in case detect_red_flags st strictness b seniority of
                          Inl e \<Rightarrow> (t4, analysis_failed e, sess)
                        | Inr red_flag_res \<Rightarrow>
                          (let analysis_results0 =
                                 compile_results_app (now st) seniority_lvl cv claims_res
                                   validation_res red_flag_res;
                               sess1 = sess\<lparr>last_analysis := Some analysis_results0\<rparr>;
                               (main_analysis, analysis_results1) =
                                 generate_comprehensive_analysis_display r analysis_results0;
                               sess2 = sess1\<lparr>last_analysis := Some analysis_results1\<rparr>;
                               claim_analysis =
                                 generate_enhanced_claim_analysis r claims0
                                   (vr_validations validation_res);
                               interview_guide =
                                 generate_interview_guide_with_context r (Some analysis_results1)
                           in (t4, Analysis main_analysis interview_guide claim_analysis,
                               sess2))))))))"

text \<open>
  \<open>export_report\<close>, lines 803-881. The key \<open>last_analysis\<close> is always present
  in the session; while it holds \<open>None\<close> the call \<open>results.get\<close> raises and the
  handler answers. Otherwise line 814 assigns to the stored dictionary before
  the format is looked at; an unknown format falls through and returns \<open>None\<close>.
\<close>

datatype export_response =
    Exported string string
  | ExportFailed string
  | ReturnsNone

definition export_failed :: "exn \<Rightarrow> export_response" where
  "export_failed e = ExportFailed (cross_mark @ '' Export failed: '' @ exn_str e)"

definition export_success_message :: "string \<Rightarrow> string" where
  "export_success_message format_type =
     (if format_type = ''HTML'' then check_mark @ '' HTML report generated successfully!''
      else if format_type = ''JSON'' then check_mark @ '' JSON export generated successfully!''
      else if format_type = ''CSV'' then check_mark @ '' CSV export generated successfully!''
      else check_mark @ '' Interview checklist generated successfully!'')"

definition export_report_app ::
  "renderer \<Rightarrow> session \<Rightarrow> string \<Rightarrow> export_response \<times> session" where
  "export_report_app r sess format_type =
     (case last_analysis sess of
        None \<Rightarrow>
          (export_failed (AttributeError
             (apostrophe # ''NoneType'' @ [apostrophe] @ '' object has no attribute '' @
              apostrophe # ''get'' @ [apostrophe])), sess)
      | Some results \<Rightarrow>
          (let results' = results\<lparr>consistency_score := min 100 (consistency_score results)\<rparr>;
               sess' = sess\<lparr>last_analysis := Some results'\<rparr>
           in if format_type \<in> set [''HTML'', ''JSON'', ''CSV'', ''Interview Checklist''] then
                (case write_report r format_type results' of
                   Inl e \<Rightarrow> (export_failed e, sess')
                 | Inr file_name \<Rightarrow>
                     (Exported file_name (export_success_message format_type), sess'))
              else (ReturnsNone, sess')))"

text \<open>
  The sessions that the three operations can produce from the initial one.
\<close>

inductive reachable :: "session \<Rightarrow> bool" where
  reach_initial: "reachable initial_session"
| reach_initialize:
    "reachable s \<Longrightarrow> snd (initialize_session connect s api_key) = s' \<Longrightarrow> reachable s'"
| reach_analyze:
    "reachable s \<Longrightarrow>
     snd (snd (analyze_resume_app st r s upload seniority_lvl strictness_lvl deep)) = s' \<Longrightarrow>
     reachable s'"
| reach_export:
    "reachable s \<Longrightarrow> snd (export_report_app r s format_type) = s' \<Longrightarrow> reachable s'"

section \<open>The Flask front end (\<^verbatim>\<open>api.py\<close>)\<close>

text \<open>
  The parts of the HTTP request that \<open>analyze_resume\<close> reads: whether
  \<open>request.files\<close> has the key \<open>file\<close>, the uploaded file's name, and the form
  fields. \<open>temp_file_name\<close> is the name of the temporary copy that is parsed.
\<close>

record request =
  file_in_request :: bool
  upload_filename :: string
  form :: "string \<rightharpoonup> string"
  temp_file_name :: string

definition form_get :: "request \<Rightarrow> string \<Rightarrow> string \<Rightarrow> string" where
  "form_get req k d = (case form req k of None \<Rightarrow> d | Some v \<Rightarrow> v)"

definition valid_seniority :: "string list" where
  "valid_seniority = [''intern'', ''junior'', ''mid'', ''senior'', ''lead'']"

definition valid_strictness :: "string list" where
  "valid_strictness = [''low'', ''medium'', ''high'']"

text \<open>
  A JSON error body with its HTTP status (the key \<open>error\<close> and, where present,
  \<open>suggestion\<close> or \<open>message\<close>), or the JSON body of a finished analysis.
\<close>

datatype api_response =
    JsonError nat string "string option"
  | JsonOk api_results

fun is_error :: "api_response \<Rightarrow> bool" where
  "is_error (JsonError status err extra) = True"
| "is_error (JsonOk res) = False"

fun status_code :: "api_response \<Rightarrow> nat" where
  "status_code (JsonError status err extra) = status"
| "status_code (JsonOk res) = 200"

fun response_text :: "api_response \<Rightarrow> string" where
  "response_text (JsonError status err extra) =
     err @ (case extra of None \<Rightarrow> [] | Some x \<Rightarrow> '' '' @ x)"
| "response_text (JsonOk res) = []"

definition server_error :: "exn \<Rightarrow> api_response" where
  "server_error e = JsonError 500 ''Analysis failed'' (Some (exn_str e))"

text \<open>Lines 149-186 of \<open>analyze_resume\<close>.\<close>

definition compile_results_api ::
  "string \<Rightarrow> request \<Rightarrow> string \<Rightarrow> string \<Rightarrow> claims_result \<Rightarrow> validation_result
     \<Rightarrow> red_flag_result \<Rightarrow> api_results" where
  "compile_results_api date req seniority strictness claims_res validation_res red_flag_res =
     (let claims0 = cr_claims claims_res;
          consistency0 = normalize_score_api (vr_consistency_score validation_res);
          final_score0 = round1 (rr_final_score red_flag_res);
          credibility0 = round1 (rr_credibility_score red_flag_res);
          consistency1 = round1 consistency0
      in \<lparr>total_claims = length claims0,
          verified_claims = count_verified (vr_validations validation_res),
          unverified_claims = count_unverified (vr_validations validation_res),
          claim_metrics = cr_metrics claims_res,
          consistency_score = consistency1,
          red_flags = rr_red_flags red_flag_res,
          total_red_flags = length (rr_red_flags red_flag_res),
          credibility_score = credibility0,
          final_score = final_score0,
          risk_assessment = rr_risk_assessment red_flag_res,
          recommendation = rr_recommendation red_flag_res,
          seniority_level = seniority,
          success = True,
          filename = upload_filename req,
          analysis_date = date,
          strictness_level = strictness,
          included_claims =
            (if form req ''include_claims'' = Some ''true'' then Some claims0 else None),
          included_validations =
            (if form req ''include_validations'' = Some ''true''
             then Some (vr_validations validation_res) else None)\<rparr>)"

text \<open>
  \<open>analyze_resume\<close>, lines 56-203. \<open>gemini_api_key\<close> is the module constant
  \<open>GEMINI_API_KEY\<close>; with an empty key \<open>get_gemini_client\<close> raises before any
  stage runs. Every exception ends in the handler of line 197.
\<close>

definition analyze_resume_api ::
  "stages \<Rightarrow> string \<Rightarrow> request \<Rightarrow> event list \<times> api_response" where
  "analyze_resume_api st gemini_api_key req =
     (if \<not> file_in_request req then ([], JsonError 400 ''No file uploaded'' None)
      else if upload_filename req = [] then ([], JsonError 400 ''Empty filename'' None)
      else
        (let seniority = str_lower (form_get req ''seniority'' ''mid'');
             strictness = str_lower (form_get req ''strictness'' ''medium'');
             deep_analysis = (str_lower (form_get req ''deep_analysis'' ''false'') = ''true'')
         in if seniority \<notin> set valid_seniority then
              ([], JsonError 400
                     (''Invalid seniority. Must be one of: '' @ list_repr valid_seniority) None)
            else if strictness \<notin> set valid_strictness then
              ([], JsonError 400
                     (''Invalid strictness. Must be one of: '' @ list_repr valid_strictness) None)
            else if gemini_api_key = [] then
              ([], server_error (ValueError ''GEMINI_API_KEY environment variable not set''))
            else
              (let t1 = [Parse (temp_file_name req)]
               in case parse st (temp_file_name req) of
                 Inl e \<Rightarrow> (t1, server_error e)
               | Inr cv \<Rightarrow>
                 (let t2 = t1 @ [ExtractClaims cv seniority]
                  in case extract_claims st cv seniority of
                    Inl e \<Rightarrow> (t2, server_error e)
                  | Inr claims_res \<Rightarrow>
                    (let claims0 = cr_claims claims_res
                     in if claims0 = [] then
                          (t2, JsonError 400 ''No claims found in resume''
                                 (Some ''Ensure resume includes work experience, projects, or skills''))
                        else case raw_text cv of
                          None \<Rightarrow> (t2, server_error (KeyError ''raw_text''))
                        | Some resume_text \<Rightarrow>
                          (let t3 = t2 @ [ValidateEvidence claims0 resume_text
                                            deep_analysis deep_analysis]
                           in case validate_evidence st claims0 resume_text
                                     deep_analysis deep_analysis of
                             Inl e \<Rightarrow> (t3, server_error e)
                           | Inr validation_res \<Rightarrow>
                             (let b = \<lparr>b_claims = claims0,
                                       b_validations = vr_validations validation_res,
                                       b_consistency_score =
                                         vr_consistency_score validation_res\<rparr>;
                                  t4 = t3 @ [DetectRedFlags strictness b seniority]
                              in case detect_red_flags st strictness b seniority of
                                Inl e \<Rightarrow> (t4, server_error e)
                              | Inr red_flag_res \<Rightarrow>
                                  (t4, JsonOk (compile_results_api (now st) req seniority
                                                 strictness claims_res validation_res
                                                 red_flag_res)))))))))"

section \<open>Concrete inputs\<close>

text \<open>Small inputs on which the functions above are run further below.\<close>

definition claim_c1 :: claim where
  "claim_c1 =
     \<lparr>claim_id = Some ''c1'', claim_text = Some ''Led a team of 5 engineers'',
      category = Some ''work_experience'', verifiability_level = Some ''high'',
      quantifiable_metrics = Some [''5''], links_artifacts = None\<rparr>"

definition validation_c1_verified :: validation where
  "validation_c1_verified =
     \<lparr>val_claim_id = Some ''c1'', verification_status = Some ''verified'',
      evidence_present = Some ''direct'', final_evidence_score = Some (9 / 10)\<rparr>"

definition claim_c2 :: claim where
  "claim_c2 =
     \<lparr>claim_id = Some ''c2'', claim_text = Some ''Python'',
      category = Some ''skill'', verifiability_level = Some ''medium'',
      quantifiable_metrics = None, links_artifacts = None\<rparr>"

definition validation_c2_partial :: validation where
  "validation_c2_partial =
     \<lparr>val_claim_id = Some ''c2'', verification_status = Some ''partial'',
      evidence_present = Some ''contextual'', final_evidence_score = Some (1 / 2)\<rparr>"

definition sample_metrics :: metrics where
  "sample_metrics =
     \<lparr>specificity_score = 1 / 2, claims_with_metrics = 1, claims_with_artifacts = 0,
      buzzword_density = 3 / 100, cross_referenced_skills = 0, total_skills = 0\<rparr>"

definition sample_cv :: parsed_cv where
  "sample_cv =
     \<lparr>raw_text = Some (replicate 120 CHR ''x''),
      sections = Some [(''experience'', ''Led a team of 5 engineers'')]\<rparr>"

definition short_cv :: parsed_cv where
  "short_cv = \<lparr>raw_text = Some (replicate 50 CHR ''x''), sections = Some []\<rparr>"

definition sample_claims_result :: claims_result where
  "sample_claims_result = \<lparr>cr_claims = [claim_c1], cr_metrics = sample_metrics\<rparr>"

definition sample_validation_result :: validation_result where
  "sample_validation_result =
     \<lparr>vr_validations = [validation_c1_verified], vr_consistency_score = 85 / 100\<rparr>"

definition two_claims_result :: claims_result where
  "two_claims_result = \<lparr>cr_claims = [claim_c1, claim_c2], cr_metrics = sample_metrics\<rparr>"

definition two_validation_result :: validation_result where
  "two_validation_result =
     \<lparr>vr_validations = [validation_c1_verified, validation_c2_partial],
      vr_consistency_score = 85 / 100\<rparr>"

text \<open>
  Twenty-one claims with identifiers of their own, and one validation record
  for each; then a claim whose identifier is the empty string, with its record.
\<close>

definition skill_claim :: "string \<Rightarrow> claim" where
  "skill_claim cid =
     \<lparr>claim_id = Some cid, claim_text = Some ''Python'',
      category = Some ''skill'', verifiability_level = Some ''medium'',
      quantifiable_metrics = None, links_artifacts = None\<rparr>"

definition verified_record :: "string \<Rightarrow> validation" where
  "verified_record cid =
     \<lparr>val_claim_id = Some cid, verification_status = Some ''verified'',
      evidence_present = Some ''direct'', final_evidence_score = Some (9 / 10)\<rparr>"

definition many_ids :: "string list" where
  "many_ids =
     [''c01'', ''c02'', ''c03'', ''c04'', ''c05'', ''c06'', ''c07'', ''c08'', ''c09'', ''c10'',
      ''c11'', ''c12'', ''c13'', ''c14'', ''c15'', ''c16'', ''c17'', ''c18'', ''c19'', ''c20'',
      ''c21'']"

definition many_claims :: "claim list" where
  "many_claims = map skill_claim many_ids"

definition many_validations :: "validation list" where
  "many_validations = map verified_record many_ids"

definition sample_red_flag_result :: red_flag_result where
  "sample_red_flag_result =
     \<lparr>rr_red_flags = [], rr_credibility_score = 100, rr_final_score = 94,
      rr_risk_assessment = ''low'', rr_recommendation = ''Proceed to interview''\<rparr>"

definition sample_stages :: stages where
  "sample_stages =
     \<lparr>parse = (\<lambda>path. Inr sample_cv),
      extract_claims = (\<lambda>cv seniority. Inr sample_claims_result),
      validate_evidence = (\<lambda>cs txt check_links deep. Inr sample_validation_result),
      detect_red_flags = (\<lambda>strictness b seniority. Inr sample_red_flag_result),
      now = ''2025-01-01T00:00:00''\<rparr>"

definition empty_claims_result :: claims_result where
  "empty_claims_result = \<lparr>cr_claims = [], cr_metrics = sample_metrics\<rparr>"

definition short_stages :: stages where
  "short_stages =
     \<lparr>parse = (\<lambda>path. Inr short_cv),
      extract_claims = (\<lambda>cv seniority. Inr empty_claims_result),
      validate_evidence = (\<lambda>cs txt check_links deep. Inr sample_validation_result),
      detect_red_flags = (\<lambda>strictness b seniority. Inr sample_red_flag_result),
      now = ''2025-01-01T00:00:00''\<rparr>"

definition sample_renderer :: renderer where
  "sample_renderer =
     \<lparr>display_text = (\<lambda>res. ''display''),
      interview_guide_text = (\<lambda>res. ''guide''),
      claims_header = (\<lambda>n. ''claims''),
      category_header = (\<lambda>cat n. cat),
      generate_single_claim_analysis =
        (\<lambda>c v. case verification_status v of None \<Rightarrow> ''unknown'' | Some s \<Rightarrow> s),
      write_report = (\<lambda>format_type res. Inr ''report'')\<rparr>"

definition ready_session :: session where
  "ready_session = \<lparr>initialized = True, last_analysis = None\<rparr>"

definition sample_request :: request where
  "sample_request =
     \<lparr>file_in_request = True, upload_filename = ''cv.pdf'',
      form = [''seniority'' \<mapsto> ''Senior''], temp_file_name = ''/tmp/upload.pdf''\<rparr>"

definition bad_request :: request where
  "bad_request =
     \<lparr>file_in_request = True, upload_filename = ''cv.pdf'',
      form = [''seniority'' \<mapsto> ''expert''], temp_file_name = ''/tmp/upload.pdf''\<rparr>"

definition sample_results :: analysis_results where
  "sample_results =
     compile_results_app (now sample_stages) ''Mid'' sample_cv sample_claims_result
       sample_validation_result sample_red_flag_result"

definition analysed_session :: session where
  "analysed_session =
     snd (snd (analyze_resume_app sample_stages sample_renderer ready_session
                 (Some ''cv.pdf'') ''Mid'' ''Medium'' False))"

section \<open>Properties of the normalization\<close>

lemma normalize_score_app_le_100: "normalize_score_app s \<le> 100"
  by simp

lemma normalize_score_api_le_100: "normalize_score_api s \<le> 100"
  by (simp add: normalize_score_api_def)

text \<open>
  C2. The claim is that the helper maps the over-scaled input 250 to 100. The
  first branch divides by 100 and only then takes the minimum with 100, so
  both helpers return 2.5 at 250, not 100.
\<close>

theorem normalize_250_not_100:
  "normalize_score_api 250 \<noteq> 100 \<and> normalize_score_app 250 \<noteq> 100"
  by (simp add: normalize_score_api_def)

text \<open>
  C2, as the code has it: at the input 250 both helpers return
  \<open>min(100, 250 / 100)\<close>, which is 2.5.
\<close>

theorem normalize_250:
  "normalize_score_api 250 = 5 / 2 \<and> normalize_score_app 250 = 5 / 2"
  by (simp add: normalize_score_api_def)

text \<open>
  C3. For every input \<open>s \<le> 1\<close> both helpers return \<open>s * 100\<close>: such an input
  takes the fractional branch, never the clamp of the last branch. At 0.85 the
  result is 85 and at the boundary 1 it is 100.
\<close>

theorem normalize_fraction_branch:
  assumes "s \<le> 1"
  shows "normalize_score_api s = s * 100 \<and> normalize_score_app s = s * 100"
  using assms by (simp add: normalize_score_api_def)

theorem normalize_fraction_branch_witness:
  "normalize_score_api (85 / 100) = 85 \<and> normalize_score_app (85 / 100) = 85 \<and>
   normalize_score_api 1 = 100 \<and> normalize_score_app 1 = 100"
  using normalize_fraction_branch [of "85 / 100"] normalize_fraction_branch [of 1]
  by simp

text \<open>
  C4. The claim is that every score in \<open>[0, 100]\<close> other than 1 is returned
  unchanged. The score 0.5 lies in that range and is not 1, yet both helpers
  return 50: every positive score up to 1 is read as a fraction.
\<close>

theorem normalize_idempotence_counterexample:
  "(0::real) \<le> 1 / 2 \<and> (1::real) / 2 \<le> 100 \<and> (1::real) / 2 \<noteq> 1 \<and>
   normalize_score_api (1 / 2) \<noteq> 1 / 2 \<and> normalize_score_app (1 / 2) \<noteq> 1 / 2"
  by (simp add: normalize_score_api_def)

text \<open>
  C4, as the code has it: a score \<open>s\<close> in \<open>[0, 100]\<close> that is 0 or greater than 1
  is returned unchanged by both helpers.
\<close>

theorem normalize_fixes_range:
  assumes "s = 0 \<or> (1 < s \<and> s \<le> 100)"
  shows "normalize_score_api s = s \<and> normalize_score_app s = s"
  using assms by (auto simp add: normalize_score_api_def)

theorem normalize_fixes_range_witness:
  "normalize_score_api 42 = 42 \<and> normalize_score_app 42 = 42 \<and>
   normalize_score_api 0 = 0 \<and> normalize_score_app 0 = 0 \<and>
   normalize_score_api 100 = 100 \<and> normalize_score_app 100 = 100"
  using normalize_fixes_range [of 42] normalize_fixes_range [of 0]
    normalize_fixes_range [of 100]
  by simp

text \<open>
  C10. The helper of the Flask endpoint and the helper of the Gradio function
  compute the same function on every real input.
\<close>

theorem normalize_score_api_eq_app:
  "normalize_score_api s = normalize_score_app s"
  by (simp add: normalize_score_api_def)

text \<open>Rounding to one decimal does not lift a score above 100.\<close>

lemma round1_le_100:
  assumes x: "x \<le> 100"
  shows "round1 x \<le> 100"
proof -
  define f where "f = \<lfloor>x * 10\<rfloor>"
  have y: "x * 10 \<le> 1000" using x by simp
  then have f: "f \<le> 1000" unfolding f_def by (simp add: floor_le_iff)
  show ?thesis
  proof (cases "f = 1000")
    case True
    then have "x * 10 - of_int f \<le> 0" using y by simp
    then show ?thesis
      using True unfolding round1_def Let_def f_def[symmetric] by simp
  next
    case False
    then have "f + 1 \<le> 1000" using f by simp
    then have "(of_int (f + 1) :: real) \<le> 1000" "(of_int f :: real) \<le> 1000"
      using of_int_le_iff[of "f + 1" 1000, where ?'a = real]
        of_int_le_iff[of "f" 1000, where ?'a = real]
      by simp_all
    then show ?thesis
      unfolding round1_def Let_def f_def[symmetric] by simp
  qed
qed

section \<open>Derived counts\<close>

lemma count_verified_length:
  "count_verified vs = length (filter (\<lambda>v. verification_status v = Some ''verified'') vs)"
  unfolding count_verified_def by (induction vs) simp_all

lemma count_unverified_length:
  "count_unverified vs =
     length (filter (\<lambda>v. verification_status v = Some ''unverified'' \<or>
                          verification_status v = Some ''red_flag'') vs)"
  unfolding count_unverified_def by (induction vs) (simp_all split: option.splits)

lemma counts_le_length: "count_verified vs + count_unverified vs \<le> length vs"
  unfolding count_verified_length count_unverified_length
  by (induction vs) auto

text \<open>
  C5. In the result of either front end \<open>verified_claims\<close> is the number of
  validation records with status \<open>verified\<close>, \<open>unverified_claims\<close> the number
  with status \<open>unverified\<close> or \<open>red_flag\<close> (a record with status \<open>partial\<close> is
  in neither), and \<open>total_claims\<close> the number of claims. The two counts add up
  to at most the number of validation records. The data model gives every
  claim exactly one validation record, so the two lists have the same length;
  already when there are no more records than claims the two counts add up to
  at most \<open>total_claims\<close>.
\<close>

theorem derived_counts:
  "verified_claims (compile_results_app t sen cv cr vr rr) =
     length (filter (\<lambda>v. verification_status v = Some ''verified'') (vr_validations vr)) \<and>
   unverified_claims (compile_results_app t sen cv cr vr rr) =
     length (filter (\<lambda>v. verification_status v = Some ''unverified'' \<or>
                          verification_status v = Some ''red_flag'') (vr_validations vr)) \<and>
   total_claims (compile_results_app t sen cv cr vr rr) = length (cr_claims cr) \<and>
   verified_claims (compile_results_api d req sn st cr vr rr) =
     verified_claims (compile_results_app t sen cv cr vr rr) \<and>
   unverified_claims (compile_results_api d req sn st cr vr rr) =
     unverified_claims (compile_results_app t sen cv cr vr rr) \<and>
   total_claims (compile_results_api d req sn st cr vr rr) =
     total_claims (compile_results_app t sen cv cr vr rr) \<and>
   verified_claims (compile_results_app t sen cv cr vr rr) +
     unverified_claims (compile_results_app t sen cv cr vr rr) \<le> length (vr_validations vr) \<and>
   (length (vr_validations vr) \<le> length (cr_claims cr) \<longrightarrow>
      verified_claims (compile_results_app t sen cv cr vr rr) +
        unverified_claims (compile_results_app t sen cv cr vr rr)
      \<le> total_claims (compile_results_app t sen cv cr vr rr))"
  using counts_le_length [of "vr_validations vr"]
  by (simp add: compile_results_app_def compile_results_api_def Let_def
      count_verified_length count_unverified_length)

text \<open>
  Two claims with one record each, one \<open>verified\<close> and one \<open>partial\<close>: one
  claim is counted as verified, none as unverified, and the total is two.
\<close>

theorem derived_counts_witness:
  "length (vr_validations two_validation_result) = length (cr_claims two_claims_result) \<and>
   map verification_status (vr_validations two_validation_result) =
     [Some ''verified'', Some ''partial''] \<and>
   verified_claims (compile_results_app ''t'' ''mid'' sample_cv two_claims_result
       two_validation_result sample_red_flag_result) = 1 \<and>
   unverified_claims (compile_results_app ''t'' ''mid'' sample_cv two_claims_result
       two_validation_result sample_red_flag_result) = 0 \<and>
   total_claims (compile_results_app ''t'' ''mid'' sample_cv two_claims_result
       two_validation_result sample_red_flag_result) = 2 \<and>
   verified_claims (compile_results_app ''t'' ''mid'' sample_cv two_claims_result
       two_validation_result sample_red_flag_result) +
   unverified_claims (compile_results_app ''t'' ''mid'' sample_cv two_claims_result
       two_validation_result sample_red_flag_result)
   \<le> total_claims (compile_results_app ''t'' ''mid'' sample_cv two_claims_result
       two_validation_result sample_red_flag_result)"
  using derived_counts [of "''t''" "''mid''" sample_cv two_claims_result
      two_validation_result sample_red_flag_result]
  by (simp add: two_validation_result_def two_claims_result_def
      validation_c1_verified_def validation_c2_partial_def)

section \<open>The stored result\<close>

lemma compile_results_app_consistency:
  "consistency_score (compile_results_app t sen cv cr vr rr) =
     round1 (normalize_score_app (vr_consistency_score vr))"
  by (simp add: compile_results_app_def Let_def)

lemma compile_results_app_le_100:
  "consistency_score (compile_results_app t sen cv cr vr rr) \<le> 100"
  unfolding compile_results_app_consistency
  by (rule round1_le_100) (rule normalize_score_app_le_100)

lemma display_keeps_result:
  assumes "consistency_score res \<le> 100"
  shows "generate_comprehensive_analysis_display r res = (display_text r res, res)"
  using assms by (simp add: generate_comprehensive_analysis_display_def Let_def min_def)

lemma export_keeps_session:
  assumes "last_analysis s = Some res" and "consistency_score res \<le> 100"
  shows "snd (export_report_app r s format_type) = s"
  using assms
  by (simp add: export_report_app_def Let_def min_def split: sum.splits)

lemma export_keeps_empty_session:
  assumes "last_analysis s = None"
  shows "snd (export_report_app r s format_type) = s"
  using assms by (simp add: export_report_app_def)

lemma initialize_keeps_slot:
  "last_analysis (snd (initialize_session connect s api_key)) = last_analysis s"
  by (simp add: initialize_session_def split: sum.splits)

text \<open>A run of \<open>analyze_resume\<close> in which every stage answers and claims are found.\<close>

lemma analyze_resume_app_success:
  assumes "initialized s"
    and "parse st p = Inr cv"
    and "extract_claims st cv (str_lower sen) = Inr cr"
    and "cr_claims cr \<noteq> []"
    and "raw_text cv = Some txt"
    and "validate_evidence st (cr_claims cr) txt deep deep = Inr vr"
    and "detect_red_flags st (str_lower str)
           \<lparr>b_claims = cr_claims cr, b_validations = vr_validations vr,
            b_consistency_score = vr_consistency_score vr\<rparr> (str_lower sen) = Inr rr"
  shows "analyze_resume_app st r s (Some p) sen str deep =
     ([Parse p, ExtractClaims cv (str_lower sen),
       ValidateEvidence (cr_claims cr) txt deep deep,
       DetectRedFlags (str_lower str)
         \<lparr>b_claims = cr_claims cr, b_validations = vr_validations vr,
          b_consistency_score = vr_consistency_score vr\<rparr> (str_lower sen)],
      Analysis (display_text r (compile_results_app (now st) sen cv cr vr rr))
        (interview_guide_text r (compile_results_app (now st) sen cv cr vr rr))
        (generate_enhanced_claim_analysis r (cr_claims cr) (vr_validations vr)),
      s\<lparr>last_analysis := Some (compile_results_app (now st) sen cv cr vr rr)\<rparr>)"
  using assms
  by (simp add: analyze_resume_app_def Let_def
      display_keeps_result [OF compile_results_app_le_100]
      generate_interview_guide_with_context_def)

lemma analyze_slot:
  assumes "last_analysis (snd (snd (analyze_resume_app st r s upload sen str deep))) = Some res"
  shows "last_analysis s = Some res \<or> consistency_score res \<le> 100"
  using assms
  by (auto simp add: analyze_resume_app_def Let_def compile_results_app_le_100
      display_keeps_result [OF compile_results_app_le_100]
      split: if_splits option.splits sum.splits)

lemma reachable_slot_normalized:
  assumes "reachable s" and "last_analysis s = Some res"
  shows "consistency_score res \<le> 100"
  using assms
proof (induction arbitrary: res rule: reachable.induct)
  case reach_initial
  then show ?case by (simp add: initial_session_def)
next
  case (reach_initialize s connect api_key s')
  then show ?case using initialize_keeps_slot [of connect s api_key] by auto
next
  case (reach_analyze s st r upload seniority_lvl strictness_lvl deep s')
  then show ?case using analyze_slot by blast
next
  case (reach_export s r format_type s')
  show ?case
  proof (cases "last_analysis s")
    case None
    then show ?thesis
      using reach_export export_keeps_empty_session [of s r format_type] by simp
  next
    case (Some res0)
    then have "s' = s"
      using reach_export export_keeps_session [of s res0 r format_type] by simp
    then show ?thesis using reach_export by simp
  qed
qed

text \<open>
  C1. The claim is that the consistency score is normalized before the
  detector computes the final score from it. \<open>analyze_resume\<close> calls the
  detector first and applies \<open>normalize_score\<close> afterwards: the detector is
  called with the validator's own value. With a validator that returns 0.85 the
  detector is called with 0.85 and not with 85.
\<close>

theorem detector_receives_raw_score:
  "detector_scores (fst (analyze_resume_app sample_stages sample_renderer ready_session
       (Some ''cv.pdf'') ''Mid'' ''Medium'' False))
   \<noteq> [normalize_score_app (vr_consistency_score sample_validation_result)]"
  by (simp add: analyze_resume_app_def Let_def sample_stages_def ready_session_def
      sample_cv_def sample_claims_result_def sample_validation_result_def
      split: prod.splits)

text \<open>
  C1, as the code has it. In a run in which every stage answers, the detector
  is called once, with the validator's consistency score as it is;
  \<open>normalize_score\<close> is then applied once to that score, and the stored
  \<open>consistency_score\<close> is the rounded result. The stored \<open>final_score\<close> is the
  detector's, rounded. The stored consistency score is at most 100, so the
  later assignments of \<open>min(100, consistency_score)\<close> do not change it.
\<close>

theorem normalization_after_detection:
  assumes "initialized s"
    and "parse st p = Inr cv"
    and "extract_claims st cv (str_lower sen) = Inr cr"
    and "cr_claims cr \<noteq> []"
    and "raw_text cv = Some txt"
    and "validate_evidence st (cr_claims cr) txt deep deep = Inr vr"
    and "detect_red_flags st (str_lower str)
           \<lparr>b_claims = cr_claims cr, b_validations = vr_validations vr,
            b_consistency_score = vr_consistency_score vr\<rparr> (str_lower sen) = Inr rr"
  shows "detector_scores (fst (analyze_resume_app st r s (Some p) sen str deep)) =
           [vr_consistency_score vr] \<and>
         last_analysis (snd (snd (analyze_resume_app st r s (Some p) sen str deep))) =
           Some (compile_results_app (now st) sen cv cr vr rr) \<and>
         consistency_score (compile_results_app (now st) sen cv cr vr rr) =
           round1 (normalize_score_app (vr_consistency_score vr)) \<and>
         final_score (compile_results_app (now st) sen cv cr vr rr) =
           round1 (rr_final_score rr) \<and>
         min 100 (consistency_score (compile_results_app (now st) sen cv cr vr rr)) =
           consistency_score (compile_results_app (now st) sen cv cr vr rr)"
proof -
  have "final_score (compile_results_app (now st) sen cv cr vr rr) = round1 (rr_final_score rr)"
    by (simp add: compile_results_app_def Let_def)
  moreover have "min 100 (consistency_score (compile_results_app (now st) sen cv cr vr rr)) =
      consistency_score (compile_results_app (now st) sen cv cr vr rr)"
    using compile_results_app_le_100 [of "now st" sen cv cr vr rr] by (simp add: min_def)
  ultimately show ?thesis
    using analyze_resume_app_success [OF assms, of r] compile_results_app_consistency
    by simp
qed

theorem normalization_after_detection_witness:
  "detector_scores (fst (analyze_resume_app sample_stages sample_renderer ready_session
       (Some ''cv.pdf'') ''Mid'' ''Medium'' False)) = [85 / 100] \<and>
   last_analysis (snd (snd (analyze_resume_app sample_stages sample_renderer ready_session
       (Some ''cv.pdf'') ''Mid'' ''Medium'' False))) = Some sample_results \<and>
   consistency_score sample_results = 85 \<and>
   final_score sample_results = 94 \<and>
   min 100 (consistency_score sample_results) = consistency_score sample_results"
proof -
  have r85: "round1 85 = 85" and r94: "round1 94 = 94"
    by (simp_all add: round1_def Let_def)
  have n85: "normalize_score_app (vr_consistency_score sample_validation_result) = 85"
    by (simp add: sample_validation_result_def)
  have raw: "vr_consistency_score sample_validation_result = 85 / 100"
    by (simp add: sample_validation_result_def)
  have fin: "rr_final_score sample_red_flag_result = 94"
    by (simp add: sample_red_flag_result_def)
  have "initialized ready_session" by (simp add: ready_session_def)
  moreover have "parse sample_stages ''cv.pdf'' = Inr sample_cv"
    by (simp add: sample_stages_def)
  moreover have "extract_claims sample_stages sample_cv (str_lower ''Mid'') = Inr sample_claims_result"
    by (simp add: sample_stages_def)
  moreover have "cr_claims sample_claims_result \<noteq> []"
    by (simp add: sample_claims_result_def)
  moreover have "raw_text sample_cv = Some (replicate 120 CHR ''x'')"
    by (simp add: sample_cv_def)
  moreover have "validate_evidence sample_stages (cr_claims sample_claims_result)
      (replicate 120 CHR ''x'') False False = Inr sample_validation_result"
    by (simp add: sample_stages_def)
  moreover have "detect_red_flags sample_stages (str_lower ''Medium'')
      \<lparr>b_claims = cr_claims sample_claims_result,
       b_validations = vr_validations sample_validation_result,
       b_consistency_score = vr_consistency_score sample_validation_result\<rparr>
      (str_lower ''Mid'') = Inr sample_red_flag_result"
    by (simp add: sample_stages_def)
  ultimately show ?thesis
    using normalization_after_detection [of ready_session sample_stages "''cv.pdf''" sample_cv
        "''Mid''" sample_claims_result "replicate 120 CHR ''x''" False sample_validation_result
        "''Medium''" sample_red_flag_result sample_renderer]
    unfolding sample_results_def [symmetric] n85 raw fin
    by (simp add: r85 r94)
qed

text \<open>
  C6. For a session that the operations can produce and that holds a result,
  neither the display function nor a report export of any format changes the
  stored result: the one field they assign to, \<open>consistency_score\<close>, is
  assigned the value it already has.
\<close>

theorem stored_result_unchanged:
  assumes "reachable s" and "last_analysis s = Some res"
  shows "snd (generate_comprehensive_analysis_display r res) = res \<and>
         snd (export_report_app r s format_type) = s"
  using display_keeps_result [OF reachable_slot_normalized [OF assms]]
    export_keeps_session [OF assms(2) reachable_slot_normalized [OF assms]]
  by simp

theorem stored_result_unchanged_witness:
  "reachable analysed_session \<and> last_analysis analysed_session = Some sample_results \<and>
   snd (generate_comprehensive_analysis_display sample_renderer sample_results) = sample_results \<and>
   snd (export_report_app sample_renderer analysed_session ''JSON'') = analysed_session"
proof -
  have ready: "reachable ready_session"
    by (rule reach_initialize [OF reach_initial, of "\<lambda>k. Inr True" "''key''"])
      (simp add: initialize_session_def initial_session_def ready_session_def str_strip_def
        is_space_def)
  have run: "analyze_resume_app sample_stages sample_renderer ready_session
               (Some ''cv.pdf'') ''Mid'' ''Medium'' False =
             ([Parse ''cv.pdf'', ExtractClaims sample_cv (str_lower ''Mid''),
               ValidateEvidence (cr_claims sample_claims_result) (replicate 120 CHR ''x'') False False,
               DetectRedFlags (str_lower ''Medium'')
                 \<lparr>b_claims = cr_claims sample_claims_result,
                  b_validations = vr_validations sample_validation_result,
                  b_consistency_score = vr_consistency_score sample_validation_result\<rparr>
                 (str_lower ''Mid'')],
              Analysis (display_text sample_renderer sample_results)
                (interview_guide_text sample_renderer sample_results)
                (generate_enhanced_claim_analysis sample_renderer (cr_claims sample_claims_result)
                   (vr_validations sample_validation_result)),
              ready_session\<lparr>last_analysis := Some sample_results\<rparr>)"
    unfolding sample_results_def
    by (rule analyze_resume_app_success)
      (simp_all add: ready_session_def sample_stages_def sample_cv_def sample_claims_result_def)
  have slot: "last_analysis analysed_session = Some sample_results"
    by (simp add: analysed_session_def run)
  have reach: "reachable analysed_session"
    by (rule reach_analyze [OF ready]) (simp add: analysed_session_def)
  show ?thesis
    using stored_result_unchanged [OF reach slot, of sample_renderer "''JSON''"] reach slot
    by simp
qed

section \<open>No claims found\<close>

text \<open>
  The Gradio function answers an empty claim list with the diagnosis of the
  document, and the diagnosis of a text shorter than 100 characters says
  \<open>too short\<close>. The Flask endpoint answers every empty claim list with the
  same fixed error.
\<close>

lemma app_no_claims_diagnosed:
  assumes "initialized s" and "parse st p = Inr cv"
    and "extract_claims st cv (str_lower sen) = Inr cr" and "cr_claims cr = []"
  shows "analyze_resume_app st r s (Some p) sen str deep =
           ([Parse p, ExtractClaims cv (str_lower sen)], Message (diagnose_no_claims cv), s)"
  using assms by (simp add: analyze_resume_app_def Let_def)

lemma short_resume_message:
  assumes "raw_text cv = Some body" and "length body < 100"
  shows "contains ''too short'' (diagnose_no_claims cv)"
  using assms by (simp add: diagnose_no_claims_def Let_def warning_sign_def)

lemma api_no_claims_fixed_answer:
  assumes "file_in_request req" and "upload_filename req \<noteq> []"
    and "str_lower (form_get req ''seniority'' ''mid'') \<in> set valid_seniority"
    and "str_lower (form_get req ''strictness'' ''medium'') \<in> set valid_strictness"
    and "key \<noteq> []" and "parse st (temp_file_name req) = Inr cv"
    and "extract_claims st cv (str_lower (form_get req ''seniority'' ''mid'')) = Inr cr"
    and "cr_claims cr = []"
  shows "snd (analyze_resume_api st key req) =
           JsonError 400 ''No claims found in resume''
             (Some ''Ensure resume includes work experience, projects, or skills'')"
  using assms by (simp add: analyze_resume_api_def Let_def)

text \<open>
  C7. A document whose text has 50 characters and yields no claims: the
  diagnosis of \<^verbatim>\<open>app.py\<close> mentions \<open>too short\<close>, while the endpoint of
  \<^verbatim>\<open>api.py\<close> answers \<open>No claims found in resume\<close> with a general suggestion
  and does not mention it.
\<close>

theorem api_short_resume_generic_error:
  "raw_text short_cv = Some (replicate 50 CHR ''x'') \<and>
   snd (analyze_resume_api short_stages ''key'' sample_request) =
     JsonError 400 ''No claims found in resume''
       (Some ''Ensure resume includes work experience, projects, or skills'') \<and>
   \<not> contains ''too short'' (response_text (snd (analyze_resume_api short_stages ''key''
        sample_request))) \<and>
   contains ''too short'' (diagnose_no_claims short_cv)"
proof -
  have low: "str_lower ''Senior'' = ''senior''"
    by (simp add: str_lower_def lower_char_def upper_letters_def lower_letters_def)
  have low2: "str_lower ''medium'' = ''medium''"
    by (simp add: str_lower_def lower_char_def upper_letters_def lower_letters_def)
  have ans: "snd (analyze_resume_api short_stages ''key'' sample_request) =
     JsonError 400 ''No claims found in resume''
       (Some ''Ensure resume includes work experience, projects, or skills'')"
    by (rule api_no_claims_fixed_answer [where cv = short_cv and cr = empty_claims_result])
      (simp_all add: sample_request_def short_stages_def form_get_def low low2
        valid_seniority_def valid_strictness_def empty_claims_result_def)
  have "contains ''too short'' (diagnose_no_claims short_cv)"
    by (rule short_resume_message [where body = "replicate 50 CHR ''x''"])
      (simp_all add: short_cv_def)
  moreover have "\<not> contains ''too short'' (response_text (JsonError 400 ''No claims found in resume''
       (Some ''Ensure resume includes work experience, projects, or skills'')))"
    by simp
  ultimately show ?thesis using ans by (simp add: short_cv_def)
qed

section \<open>The request boundary\<close>

text \<open>
  C8, as the code has it. A request whose seniority, lower-cased (\<open>mid\<close> when
  absent), is not one of the five levels, or whose strictness, lower-cased
  (\<open>medium\<close> when absent), is not one of the three, is answered with an error of
  status 400 and no stage is called.
\<close>

theorem invalid_level_rejected:
  assumes "str_lower (form_get req ''seniority'' ''mid'') \<notin> set valid_seniority \<or>
           str_lower (form_get req ''strictness'' ''medium'') \<notin> set valid_strictness"
  shows "fst (analyze_resume_api st key req) = [] \<and>
         is_error (snd (analyze_resume_api st key req)) \<and>
         status_code (snd (analyze_resume_api st key req)) = 400"
  using assms by (auto simp add: analyze_resume_api_def Let_def)

theorem invalid_level_rejected_witness:
  "str_lower (form_get bad_request ''seniority'' ''mid'') = ''expert'' \<and>
   ''expert'' \<notin> set valid_seniority \<and>
   fst (analyze_resume_api sample_stages ''key'' bad_request) = [] \<and>
   is_error (snd (analyze_resume_api sample_stages ''key'' bad_request)) \<and>
   status_code (snd (analyze_resume_api sample_stages ''key'' bad_request)) = 400"
proof -
  have low: "str_lower (form_get bad_request ''seniority'' ''mid'') = ''expert''"
    by (simp add: bad_request_def form_get_def str_lower_def lower_char_def upper_letters_def lower_letters_def)
  have out: "''expert'' \<notin> set valid_seniority"
    by (simp add: valid_seniority_def)
  show ?thesis
    using invalid_level_rejected [of bad_request sample_stages "''key''"] low out
    by simp
qed

text \<open>
  C8. The claim rejects every seniority value outside the five levels. The
  endpoint lower-cases the value before the test: the value \<open>Senior\<close> is not
  one of the five levels, yet the request is accepted and the stages run.
\<close>

theorem mixed_case_level_accepted:
  "form sample_request ''seniority'' = Some ''Senior'' \<and>
   ''Senior'' \<notin> set valid_seniority \<and>
   fst (analyze_resume_api sample_stages ''key'' sample_request) \<noteq> [] \<and>
   \<not> is_error (snd (analyze_resume_api sample_stages ''key'' sample_request))"
proof -
  have low: "str_lower ''Senior'' = ''senior''" "str_lower ''medium'' = ''medium''"
    "str_lower ''false'' = ''false''"
    by (simp_all add: str_lower_def lower_char_def upper_letters_def lower_letters_def)
  show ?thesis
    by (simp add: analyze_resume_api_def Let_def sample_request_def form_get_def low
        valid_seniority_def valid_strictness_def sample_stages_def sample_cv_def
        sample_claims_result_def)
qed

section \<open>Pairing claims with validation records\<close>

lemma build_validation_map_fold:
  "build_validation_map vs = fold put_validation vs Map.empty"
  by (simp add: build_validation_map_def)

lemma fold_put_absent:
  assumes "\<forall>v \<in> set vs. val_id v \<noteq> k"
  shows "fold put_validation vs m k = m k"
  using assms by (induction vs arbitrary: m) (auto simp add: put_validation_def Let_def)

lemma fold_put_empty_key: "m [] = None \<Longrightarrow> fold put_validation vs m [] = None"
  by (induction vs arbitrary: m) (auto simp add: put_validation_def Let_def)

lemma fold_put_present:
  assumes "v \<in> set vs" and "val_id v = k" and "k \<noteq> []"
    and "distinct (filter (\<lambda>i. i \<noteq> []) (map val_id vs))"
  shows "fold put_validation vs m k = Some v"
  using assms
proof (induction vs arbitrary: m)
  case Nil
  then show ?case by simp
next
  case (Cons x xs)
  show ?case
  proof (cases "v \<in> set xs")
    case True
    have "distinct (filter (\<lambda>i. i \<noteq> []) (map val_id xs))"
      using Cons.prems(4) by (simp split: if_splits)
    then show ?thesis using Cons.IH [OF True Cons.prems(2,3)] by simp
  next
    case False
    then have vx: "v = x" using Cons.prems(1) by simp
    have "\<forall>w \<in> set xs. val_id w \<noteq> k"
      using Cons.prems(2,3,4) vx by (force simp add: image_iff)
    then have "fold put_validation xs (put_validation x m) k = put_validation x m k"
      by (rule fold_put_absent)
    moreover have "put_validation x m k = Some v"
      using vx Cons.prems(2,3) by (simp add: put_validation_def Let_def)
    ultimately show ?thesis by simp
  qed
qed

lemma validation_map_permuted:
  assumes d: "distinct (filter (\<lambda>i. i \<noteq> []) (map val_id vs))"
    and p: "mset vs' = mset vs"
  shows "build_validation_map vs' = build_validation_map vs"
proof
  fix k
  have s: "set vs' = set vs" using p by (rule mset_eq_setD)
  have "mset (filter (\<lambda>i. i \<noteq> []) (map val_id vs')) = mset (filter (\<lambda>i. i \<noteq> []) (map val_id vs))"
    using p by (metis mset_filter mset_map)
  then have d': "distinct (filter (\<lambda>i. i \<noteq> []) (map val_id vs'))"
    using d by (metis mset_eq_imp_distinct_iff)
  show "build_validation_map vs' k = build_validation_map vs k"
  proof (cases "k \<noteq> [] \<and> (\<exists>v \<in> set vs. val_id v = k)")
    case True
    then obtain v where v: "v \<in> set vs" "val_id v = k" "k \<noteq> []" by blast
    have "fold put_validation vs Map.empty k = Some v"
      using v d by (rule fold_put_present)
    moreover have "fold put_validation vs' Map.empty k = Some v"
      using v d' s fold_put_present [of v vs' k Map.empty] by simp
    ultimately show ?thesis by (simp add: build_validation_map_fold)
  next
    case False
    show ?thesis
    proof (cases "k = []")
      case True
      then show ?thesis by (simp add: build_validation_map_fold fold_put_empty_key)
    next
      case False
      then have "\<forall>v \<in> set vs. val_id v \<noteq> k" using \<open>\<not> (k \<noteq> [] \<and> (\<exists>v \<in> set vs. val_id v = k))\<close> by blast
      then show ?thesis using s by (simp add: build_validation_map_fold fold_put_absent)
    qed
  qed
qed

lemma items_add_to_category:
  "mset (concat (map snd (add_to_category cat item cats))) =
     add_mset item (mset (concat (map snd cats)))"
  by (induction cat item cats rule: add_to_category.induct) auto

lemma items_fold_categories:
  "mset (concat (map snd (fold (\<lambda>c cats. add_to_category (g c) (c, h c) cats) cs cats0))) =
     mset (map (\<lambda>c. (c, h c)) cs) + mset (concat (map snd cats0))"
  by (induction cs arbitrary: cats0) (simp_all add: items_add_to_category)

lemma group_claims_items:
  "mset (concat (map snd (group_claims cs vs))) =
     mset (map (\<lambda>c. (c, lookup_validation (build_validation_map vs) c)) (take 20 cs))"
  using items_fold_categories [of "\<lambda>c. case category c of None \<Rightarrow> ''other'' | Some k \<Rightarrow> k"
      "lookup_validation (build_validation_map vs)" "take 20 cs" "[]"]
  by (simp add: group_claims_def Let_def)

lemma lookup_finds_record:
  assumes "distinct (filter (\<lambda>i. i \<noteq> []) (map val_id vs))"
    and "v \<in> set vs" and "val_id v \<noteq> []" and "claim_id c = Some (val_id v)"
  shows "lookup_validation (build_validation_map vs) c = v"
  using fold_put_present [OF assms(2) refl assms(3) assms(1), of Map.empty] assms(4)
  by (simp add: lookup_validation_def build_validation_map_fold)

lemma group_claims_claims:
  "set (map fst (concat (map snd (group_claims cs vs)))) = set (take 20 cs)"
proof -
  have "mset (map fst (concat (map snd (group_claims cs vs)))) =
        image_mset fst (mset (concat (map snd (group_claims cs vs))))"
    by simp
  also have "\<dots> = mset (take 20 cs)"
    unfolding group_claims_items by (simp add: image_mset.compositionality comp_def)
  finally show ?thesis by (rule mset_eq_setD)
qed

text \<open>
  C9, as the code has it. When no two validation records share a non-empty
  \<open>claim_id\<close>, as holds where every claim has its own record, permuting the
  validation list changes neither the grouped pairs nor the rendered analysis,
  and each of the first twenty claims is paired with the record whose
  non-empty \<open>claim_id\<close> equals its own.
\<close>

theorem pairing_by_claim_id:
  assumes "distinct (filter (\<lambda>i. i \<noteq> []) (map val_id vs))" and "mset vs' = mset vs"
  shows "group_claims cs vs' = group_claims cs vs \<and>
         generate_enhanced_claim_analysis r cs vs' = generate_enhanced_claim_analysis r cs vs \<and>
         (\<forall>c v. c \<in> set (take 20 cs) \<and> v \<in> set vs \<and> val_id v \<noteq> [] \<and>
                claim_id c = Some (val_id v) \<longrightarrow>
                (c, v) \<in> set (concat (map snd (group_claims cs vs))))"
proof -
  have m: "build_validation_map vs' = build_validation_map vs"
    using assms by (rule validation_map_permuted)
  have g: "group_claims cs vs' = group_claims cs vs"
    by (simp add: group_claims_def m)
  have h: "generate_enhanced_claim_analysis r cs vs' = generate_enhanced_claim_analysis r cs vs"
    by (simp add: generate_enhanced_claim_analysis_def g)
  have "(c, v) \<in> set (concat (map snd (group_claims cs vs)))"
    if "c \<in> set (take 20 cs)" "v \<in> set vs" "val_id v \<noteq> []" "claim_id c = Some (val_id v)"
    for c v
  proof -
    have "lookup_validation (build_validation_map vs) c = v"
      using assms(1) that(2,3,4) by (rule lookup_finds_record)
    then have "(c, v) \<in> set (map (\<lambda>c. (c, lookup_validation (build_validation_map vs) c)) (take 20 cs))"
      using that(1) by force
    then have "(c, v) \<in># mset (concat (map snd (group_claims cs vs)))"
      unfolding group_claims_items by simp
    then show ?thesis by simp
  qed
  then show ?thesis using g h by blast
qed

text \<open>
  Two claims with one record each: exchanging the two records changes
  nothing, and the first claim is paired with its own record.
\<close>

theorem pairing_by_claim_id_witness:
  "map claim_id [claim_c1, claim_c2] =
     map (\<lambda>v. Some (val_id v)) [validation_c1_verified, validation_c2_partial] \<and>
   group_claims [claim_c1, claim_c2] [validation_c2_partial, validation_c1_verified] =
     group_claims [claim_c1, claim_c2] [validation_c1_verified, validation_c2_partial] \<and>
   generate_enhanced_claim_analysis sample_renderer [claim_c1, claim_c2]
       [validation_c2_partial, validation_c1_verified] =
     generate_enhanced_claim_analysis sample_renderer [claim_c1, claim_c2]
       [validation_c1_verified, validation_c2_partial] \<and>
   (claim_c1, validation_c1_verified) \<in>
     set (concat (map snd (group_claims [claim_c1, claim_c2]
            [validation_c1_verified, validation_c2_partial])))"
proof -
  have d: "distinct (filter (\<lambda>i. i \<noteq> [])
             (map val_id [validation_c1_verified, validation_c2_partial]))"
    by (simp add: val_id_def validation_c1_verified_def validation_c2_partial_def)
  have p: "mset [validation_c2_partial, validation_c1_verified] =
           mset [validation_c1_verified, validation_c2_partial]"
    by (simp add: add_mset_commute)
  have i: "claim_c1 \<in> set (take 20 [claim_c1, claim_c2]) \<and>
           validation_c1_verified \<in> set [validation_c1_verified, validation_c2_partial] \<and>
           val_id validation_c1_verified \<noteq> [] \<and>
           claim_id claim_c1 = Some (val_id validation_c1_verified)"
    by (simp add: val_id_def validation_c1_verified_def claim_c1_def)
  have k: "map claim_id [claim_c1, claim_c2] =
     map (\<lambda>v. Some (val_id v)) [validation_c1_verified, validation_c2_partial]"
    by (simp add: val_id_def validation_c1_verified_def validation_c2_partial_def
        claim_c1_def claim_c2_def)
  show ?thesis
    using pairing_by_claim_id [OF d p, of "[claim_c1, claim_c2]" sample_renderer] i k
    by blast
qed

text \<open>
  C9. The claim pairs every claim with its record. The loop of line 478 runs
  over the first twenty claims only: of twenty-one claims with identifiers of
  their own and one record each, the twenty-first is paired with no record at
  all. And an identifier that is the empty string is never entered in the
  lookup table (line 473): a claim with that identifier is paired with the
  empty dictionary, not with its record.
\<close>

theorem claims_beyond_twenty_unpaired:
  "distinct many_ids \<and>
   map claim_id many_claims = map Some many_ids \<and>
   map val_id many_validations = many_ids \<and>
   skill_claim ''c21'' \<in> set many_claims \<and>
   skill_claim ''c21'' \<notin>
     set (map fst (concat (map snd (group_claims many_claims many_validations)))) \<and>
   claim_id (skill_claim []) = Some (val_id (verified_record [])) \<and>
   concat (map snd (group_claims [skill_claim []] [verified_record []])) =
     [(skill_claim [], empty_validation)] \<and>
   empty_validation \<noteq> verified_record []"
proof -
  have ids: "distinct many_ids"
    by (simp add: many_ids_def)
  have cs: "map claim_id many_claims = map Some many_ids"
    by (simp add: many_claims_def skill_claim_def comp_def)
  have vs: "map val_id many_validations = many_ids"
    by (simp add: many_validations_def verified_record_def val_id_def comp_def)
  have last: "skill_claim ''c21'' \<in> set many_claims"
    by (simp add: many_claims_def many_ids_def)
  have cut: "skill_claim ''c21'' \<notin> set (take 20 many_claims)"
    by (simp add: many_claims_def many_ids_def skill_claim_def)
  have e1: "claim_id (skill_claim []) = Some (val_id (verified_record []))"
    by (simp add: skill_claim_def verified_record_def val_id_def)
  have e2: "concat (map snd (group_claims [skill_claim []] [verified_record []])) =
     [(skill_claim [], empty_validation)]"
    by (simp add: group_claims_def build_validation_map_def put_validation_def
        lookup_validation_def val_id_def Let_def skill_claim_def verified_record_def)
  have e3: "empty_validation \<noteq> verified_record []"
    by (simp add: empty_validation_def verified_record_def)
  show ?thesis
    using ids cs vs last cut e1 e2 e3 unfolding group_claims_claims by blast
qed

end
